theory Spec2Isabelle
  imports Main
begin

section \<open>JavaScript values as the client code meets them\<close>

text \<open>
  The client reads every datum out of a parsed JSON response. A property of such an
  object is either absent (reading it gives \<open>undefined\<close>), \<open>null\<close>, or a value.
  The code tells the three apart in places (\<open>undefined < 100\<close> is false while
  \<open>null < 100\<close> is true), so the embedding keeps all three.

  A JavaScript string is a sequence of UTF-16 code units. \<^typ>\<open>string\<close> holds the
  strings whose code units lie in U+0000..U+00FF, one \<^typ>\<open>char\<close> per code unit;
  every function on strings below is the JavaScript function restricted to that range.
  Numbers are the integer-valued ones, as the data model has them
  (\<open>progress\<close> is an integer 0..100).
\<close>

datatype 'a field = Undefined | Null | Has 'a

definition truthy_str :: "string field \<Rightarrow> bool" where
  \<comment> \<open>ToBoolean on an absent, null or string value: only a non-empty string is truthy.\<close>
  "truthy_str f = (case f of Has s \<Rightarrow> s \<noteq> [] | _ \<Rightarrow> False)"

definition or_str :: "string field \<Rightarrow> string \<Rightarrow> string" where
  \<comment> \<open>\<open>f || d\<close> for a string-valued property \<open>f\<close> and a string literal \<open>d\<close>.\<close>
  "or_str f d = (case f of Has s \<Rightarrow> (if s \<noteq> [] then s else d) | _ \<Rightarrow> d)"

definition str_of :: "string field \<Rightarrow> string" where
  \<comment> \<open>ToString, as string concatenation and template literals apply it.\<close>
  "str_of f = (case f of Undefined \<Rightarrow> ''undefined'' | Null \<Rightarrow> ''null'' | Has s \<Rightarrow> s)"

fun digits :: "nat \<Rightarrow> string" where
  "digits n = (if n < 10 then [char_of (48 + n)] else digits (n div 10) @ [char_of (48 + n mod 10)])"

declare digits.simps [simp del]

definition show_int :: "int \<Rightarrow> string" where
  \<comment> \<open>Number-to-string on an integer (below 10^21 in magnitude, where JavaScript
      still prints plain decimal digits).\<close>
  "show_int i = (if i < 0 then CHR ''-'' # digits (nat (- i)) else digits (nat i))"

definition num_str :: "int field \<Rightarrow> string" where
  "num_str f = (case f of Undefined \<Rightarrow> ''undefined'' | Null \<Rightarrow> ''null'' | Has n \<Rightarrow> show_int n)"

definition lt_num :: "int field \<Rightarrow> int \<Rightarrow> bool" where
  \<comment> \<open>\<open>f < k\<close>: ToNumber gives NaN for \<open>undefined\<close> (every comparison with NaN is
      false) and 0 for \<open>null\<close>.\<close>
  "lt_num f k = (case f of Undefined \<Rightarrow> False | Null \<Rightarrow> 0 < k | Has n \<Rightarrow> n < k)"

subsection \<open>String.prototype.toLowerCase\<close>

definition lower_char :: "char \<Rightarrow> char" where
  \<comment> \<open>The Unicode lower-case mapping on U+0000..U+00FF: A-Z, and the Latin-1 capitals
      U+00C0..U+00DE except the multiplication sign U+00D7, move up by 32.\<close>
  "lower_char c =
     (let n = (of_char c :: nat)
      in if (65 \<le> n \<and> n \<le> 90) \<or> (192 \<le> n \<and> n \<le> 222 \<and> n \<noteq> 215)
         then char_of (n + 32) else c)"

definition toLowerCase :: "string \<Rightarrow> string" where
  "toLowerCase s = map lower_char s"

section \<open>The data model\<close>

text \<open>
  A metric value is a number, a string, a boolean, \<open>null\<close> or a nested mapping. A
  mapping is the list of its entries in the order \<open>Object.entries\<close> yields them.
\<close>

datatype metric = MNull | MBool bool | MNum int | MStr string | MDict "(string \<times> metric) list"

record sample =
  sample_name :: "string field"
  sample_files :: "string list field"

record stage =
  stage_name :: string
  metrics :: "(string \<times> metric) list field"
  stage_artifact :: "string field"

record artifact =
  kind :: string
  path :: string

record job =
  job_id :: "string field"
  created_at :: "string field"
  progress :: "int field"
  status :: "string field"
  job_sample :: "sample field"
  stages :: "stage list field"
  artifacts :: "artifact list field"

section \<open>Effects: the page, exceptions, the network\<close>

text \<open>
  An element of the page carries the properties the scripts write. Its content is the
  markup last assigned through \<open>innerHTML\<close> or the text last assigned through
  \<open>textContent\<close>; \<open>TextDash\<close> is the one-character text U+2013, which lies outside
  the code units \<^typ>\<open>string\<close> holds. The page maps an id to its element;
  \<open>document.getElementById\<close> of an id with no element is \<open>null\<close>, and reading or
  writing a property of \<open>null\<close> throws a TypeError.
\<close>

datatype content = Html string | Text string | TextDash

record element =
  content :: content
  className :: string
  display :: string
  width :: string
  disabled :: bool
  input_value :: string
  input_files :: "string list"

type_synonym dom = "string \<rightharpoonup> element"

datatype exn = TypeError | NetworkError | SyntaxError

text \<open>
  A handler either runs to its end or throws; what it wrote before throwing stays
  written, so both outcomes carry the state.
\<close>

datatype 'st outcome = Done 'st | Threw exn 'st

definition and_then :: "'st outcome \<Rightarrow> ('st \<Rightarrow> 'st outcome) \<Rightarrow> 'st outcome" where
  "and_then r f = (case r of Done s \<Rightarrow> f s | Threw e s \<Rightarrow> Threw e s)"

definition state_of :: "'st outcome \<Rightarrow> 'st" where
  "state_of r = (case r of Done s \<Rightarrow> s | Threw e s \<Rightarrow> s)"

definition threw :: "'st outcome \<Rightarrow> bool" where
  "threw r = (case r of Done s \<Rightarrow> False | Threw e s \<Rightarrow> True)"

text \<open>
  What comes back from \<open>await fetch(...)\<close> followed by \<open>await res.json()\<close>:
  \<open>fetch\<close> rejects on a transport failure, \<open>res.json()\<close> rejects on a body that is
  not JSON, and otherwise the parsed body is at hand together with the HTTP status.
\<close>

datatype 'a reply = Rejected | Malformed nat | Body nat 'a


record upload_reply =
  up_ok :: bool
  up_error :: "string field"
  up_sample :: "sample field"


record status_reply =
  st_ok :: bool
  st_error :: "string field"
  st_job :: "job field"

datatype form_value = FText string | FFile string

datatype request =
    Get string
  | PostForm string "(string \<times> form_value) list"
  | PostJson string "sample field"

section \<open>main.js: upload, run and the status poller\<close>

text \<open>
  The module-level variables \<open>currentSample\<close> and \<open>currentJob\<close>, the page, and a
  log of what the script did to the outside: the alerts it raised, the requests it issued
  and the delays of the \<open>setTimeout(pollStatus, ...)\<close> calls it made.
\<close>

record client =
  currentSample :: "sample field"
  currentJob :: "string field"
  page :: dom
  alerts :: "string list"
  requests :: "request list"
  timers :: "nat list"


definition fetch :: "request \<Rightarrow> client \<Rightarrow> 'a reply \<Rightarrow> ('a \<Rightarrow> client \<Rightarrow> client outcome) \<Rightarrow> client outcome" where
  \<comment> \<open>\<open>const res = await fetch(...); const data = await res.json();\<close> and the rest
      of the handler as the continuation. The handlers of main.js catch nothing.\<close>
  "fetch req st r k =
     (let st' = st\<lparr>requests := requests st @ [req]\<rparr>
      in case r of
           Rejected \<Rightarrow> Threw NetworkError st'
         | Malformed code \<Rightarrow> Threw SyntaxError st'
         | Body code data \<Rightarrow> k data st')"

definition alert :: "string \<Rightarrow> client \<Rightarrow> client" where
  "alert msg st = st\<lparr>alerts := alerts st @ [msg]\<rparr>"

definition upload_submit :: "string \<Rightarrow> upload_reply reply \<Rightarrow> client \<Rightarrow> client outcome" where
  "upload_submit API r st =
     (let fileInput = page st ''file-input''
      in case page st ''sample-name'' of
           None \<Rightarrow> Threw TypeError st
         | Some nameInput \<Rightarrow>
             let name = (if input_value nameInput \<noteq> [] then input_value nameInput else ''sample'')
             in case fileInput of
                  None \<Rightarrow> Threw TypeError st
                | Some fi \<Rightarrow>
                    if input_files fi = [] then Done (alert ''Please choose FASTQ files.'' st)
                    else
                      let form = (''sample_name'', FText name) # map (\<lambda>f. (''files'', FFile f)) (input_files fi)
                      in fetch (PostForm (API @ ''/upload'') form) st r
                           (\<lambda>data st'.
                              if \<not> up_ok data
                              then Done (alert (''Upload error: '' @ str_of (up_error data)) st')
                              else
                                let st'' = st'\<lparr>currentSample := up_sample data\<rparr>
                                in case page st'' ''run-btn'' of
                                     None \<Rightarrow> Threw TypeError st''
                                   | Some btn \<Rightarrow>
                                       Done (st''\<lparr>page := (page st'')(''run-btn'' \<mapsto> btn\<lparr>disabled := False\<rparr>)\<rparr>)))"

definition renderStatus :: "(job field \<Rightarrow> string) \<Rightarrow> job field \<Rightarrow> client \<Rightarrow> client outcome" where
  \<comment> \<open>\<open>stringify\<close> stands for \<open>JSON.stringify(job, null, 2)\<close> under the template
      literal. Reading \<open>job.progress\<close> of an absent or null job throws.\<close>
  "renderStatus stringify j st =
     (case page st ''status'' of
        None \<Rightarrow> Threw TypeError st
      | Some statusEl \<Rightarrow>
          let st1 = st\<lparr>page := (page st)(''status'' \<mapsto>
                      statusEl\<lparr>content := Html (''<pre>'' @ stringify j @ ''</pre>'')\<rparr>)\<rparr>
          in case page st1 ''bar'' of
               None \<Rightarrow> Threw TypeError st1
             | Some bar \<Rightarrow>
                 (case j of
                    Has jb \<Rightarrow>
                      Done (st1\<lparr>page := (page st1)(''bar'' \<mapsto>
                              bar\<lparr>width := num_str (progress jb) @ ''%''\<rparr>)\<rparr>)
                  | _ \<Rightarrow> Threw TypeError st1))"

definition pollStatus :: "string \<Rightarrow> (job field \<Rightarrow> string) \<Rightarrow> status_reply reply \<Rightarrow> client \<Rightarrow> client outcome" where
  "pollStatus API stringify r st =
     (if \<not> truthy_str (currentJob st) then Done st
      else fetch (Get (API @ ''/status/'' @ str_of (currentJob st))) st r
             (\<lambda>data st'.
                if \<not> st_ok data then Done st'
                else and_then (renderStatus stringify (st_job data) st')
                       (\<lambda>st''. case st_job data of
                                  Has jb \<Rightarrow>
                                    if lt_num (progress jb) 100
                                    then Done (st''\<lparr>timers := timers st'' @ [2000]\<rparr>)
                                    else Done st''
                                | _ \<Rightarrow> Threw TypeError st'')))"

fun poll_chain :: "string \<Rightarrow> (job field \<Rightarrow> string) \<Rightarrow> status_reply reply list \<Rightarrow> client \<Rightarrow> client outcome" where
  \<comment> \<open>The event loop behind the self-rescheduling poller: \<open>pollStatus\<close> runs on the
      first reply; if a timer is pending when it ends, the oldest one fires, which runs
      \<open>pollStatus\<close> again on the next reply; with no timer pending nothing runs.\<close>
  "poll_chain API stringify [] st = Done st"
| "poll_chain API stringify (r # rs) st =
     (case pollStatus API stringify r st of
        Threw e s \<Rightarrow> Threw e s
      | Done s \<Rightarrow>
          (case timers s of
             [] \<Rightarrow> Done s
           | t # ts \<Rightarrow> poll_chain API stringify rs (s\<lparr>timers := ts\<rparr>)))"


section \<open>The React variant (backend/storage/uploads/sample/main.js)\<close>

text \<open>
  The state hooks of \<open>App\<close>, the value of the \<open>sample_name\<close> input it renders,
  the requests it sent, and the delay of the interval timer \<open>useInterval\<close> keeps
  running (\<open>None\<close> when no timer runs).
\<close>

record app =
  ui :: string
  files :: "string list"
  app_sample :: "sample field"
  jobId :: "string field"
  app_job :: "job field"
  activeModule :: string
  isTrimming :: bool
  sample_name_input :: string
  sent :: "request list"
  interval :: "nat option"

definition app_fetch :: "request \<Rightarrow> app \<Rightarrow> 'a reply \<Rightarrow> ('a \<Rightarrow> app \<Rightarrow> app outcome) \<Rightarrow> app outcome" where
  "app_fetch req st r k =
     (let st' = st\<lparr>sent := sent st @ [req]\<rparr>
      in case r of
           Rejected \<Rightarrow> Threw NetworkError st'
         | Malformed code \<Rightarrow> Threw SyntaxError st'
         | Body code data \<Rightarrow> k data st')"

definition useInterval :: "nat option \<Rightarrow> app \<Rightarrow> app" where
  \<comment> \<open>The effect of \<open>useInterval(callback, delay)\<close>: no timer for a null delay, else
      \<open>setInterval\<close> with that delay; only a change of \<open>delay\<close> or unmounting clears it.\<close>
  "useInterval delay st = (case delay of None \<Rightarrow> st\<lparr>interval := None\<rparr> | Some d \<Rightarrow> st\<lparr>interval := Some d\<rparr>)"

definition App_mount :: "app \<Rightarrow> app" where
  \<comment> \<open>\<open>App\<close> passes the literal delay 1000 on every render.\<close>
  "App_mount st = useInterval (Some 1000) st"

definition stage_names :: "job \<Rightarrow> string list" where
  "stage_names j = map stage_name (case stages j of Has l \<Rightarrow> l | _ \<Rightarrow> [])"

definition App_poll :: "string \<Rightarrow> status_reply reply \<Rightarrow> app \<Rightarrow> app outcome" where
  \<comment> \<open>The callback the interval timer runs.\<close>
  "App_poll API r st =
     (if \<not> truthy_str (jobId st) then Done st
      else app_fetch (Get (API @ ''/api/status/'' @ str_of (jobId st))) st r
             (\<lambda>js st'.
                if st_ok js
                then
                  let st'' = st'\<lparr>app_job := st_job js\<rparr>
                  in case st_job js of
                       Has jb \<Rightarrow>
                         let names = stage_names jb
                         in if ''pre_qc_raw'' \<in> set names \<and>
                               (status jb = Has ''finished'' \<or> ''trim'' \<notin> set names)
                            then Done (st''\<lparr>ui := ''fastqc_done''\<rparr>)
                            else Done st''
                     | _ \<Rightarrow> Threw TypeError st''
                else Done st'))"

definition onUpload :: "string \<Rightarrow> upload_reply reply \<Rightarrow> app \<Rightarrow> app outcome" where
  "onUpload API r st =
     (let fd = map (\<lambda>f. (''files'', FFile f)) (files st)
               @ [(''sample_name'',
                   FText (if sample_name_input st \<noteq> [] then sample_name_input st else ''sample''))]
      in app_fetch (PostForm (API @ ''/api/upload'') fd) st r
           (\<lambda>js st'.
              if up_ok js then Done (st'\<lparr>app_sample := up_sample js, ui := ''uploaded''\<rparr>)
              else Done st'))"

section \<open>Artifact URLs: encodeURIComponent\<close>

definition unreserved :: "char \<Rightarrow> bool" where
  \<comment> \<open>The characters \<open>encodeURIComponent\<close> leaves as they are: letters, digits and
      \<open>- _ . ! ~ * ' ( )\<close>.\<close>
  \<open>unreserved c =
     (let n = (of_char c :: nat)
      in (65 \<le> n \<and> n \<le> 90) \<or> (97 \<le> n \<and> n \<le> 122) \<or> (48 \<le> n \<and> n \<le> 57)
         \<or> c \<in> set ''-_.!~*'()'')\<close>

definition hex_digit :: "nat \<Rightarrow> char" where
  "hex_digit d = (if d < 10 then char_of (48 + d) else char_of (55 + d))"

definition pct :: "nat \<Rightarrow> string" where
  "pct b = [CHR ''%'', hex_digit (b div 16), hex_digit (b mod 16)]"

definition encode_unit :: "char \<Rightarrow> string" where
  \<comment> \<open>One code unit: kept, or the percent-escapes of its UTF-8 bytes (one byte below
      U+0080, two bytes from U+0080 to U+00FF).\<close>
  "encode_unit c =
     (let n = (of_char c :: nat)
      in if unreserved c then [c]
         else if n < 128 then pct n
         else pct (192 + n div 64) @ pct (128 + n mod 64))"

definition encodeURIComponent :: "string \<Rightarrow> string" where
  "encodeURIComponent s = concat (map encode_unit s)"

definition artifactUrl :: "string \<Rightarrow> string \<Rightarrow> string" where
  \<comment> \<open>report.js, at each of its seven links:
      \<open>`${API}/artifact?path=${encodeURIComponent(p)}`\<close>.\<close>
  "artifactUrl API p = API @ ''/artifact?path='' @ encodeURIComponent p"

definition makeArtifactUrl :: "string \<Rightarrow> string \<Rightarrow> string" where
  \<comment> \<open>plots.js.\<close>
  "makeArtifactUrl base p = base @ ''/api/artifact?path='' @ encodeURIComponent p"





section \<open>report.js: the status badge\<close>

definition badgeClass :: "string field \<Rightarrow> string" where
  "badgeClass status0 =
     (let status = toLowerCase (or_str status0 [])
      in if status = ''finished'' then ''badge finished''
         else if status = ''failed'' then ''badge failed''
         else ''badge running'')"

text \<open>
  What the specification calls a case-variant of a lower-case ASCII word, said without
  the lower-casing function: the same length, and position by position the letter itself
  or its ASCII capital.
\<close>

definition ascii_upper :: "char \<Rightarrow> char" where
  "ascii_upper d = char_of ((of_char d :: nat) - 32)"

definition case_variant :: "string \<Rightarrow> string \<Rightarrow> bool" where
  "case_variant w s = list_all2 (\<lambda>c d. c = d \<or> c = ascii_upper d) s w"

definition lower_letters :: "string \<Rightarrow> bool" where
  \<comment> \<open>A word of the letters a-z only.\<close>
  "lower_letters w = list_all (\<lambda>d. 97 \<le> (of_char d :: nat) \<and> (of_char d :: nat) \<le> 122) w"

section \<open>report.js: tables, links and plots\<close>
















definition artifact_of :: "stage option \<Rightarrow> string field" where
  \<comment> \<open>\<open>stage?.artifact\<close>.\<close>
  "artifact_of st = (case st of None \<Rightarrow> Undefined | Some s \<Rightarrow> stage_artifact s)"

definition html_link :: "string \<Rightarrow> string \<Rightarrow> string" where
  \<comment> \<open>The paragraph appended below a stage's table, with the link's text.\<close>
  \<open>html_link url label =
     ''<p style="margin-top:0.5rem;font-size:0.8rem;">\<newline>            <a href="'' @ url
     @ ''" target="_blank">\<newline>              '' @ label
     @ ''\<newline>            </a>\<newline>          </p>''\<close>

definition stage_html :: "string \<Rightarrow> string \<Rightarrow> stage option \<Rightarrow> string \<Rightarrow> string" where
  \<comment> \<open>\<open>div.innerHTML = table; if (stage?.artifact) div.innerHTML += link\<close>.\<close>
  "stage_html API table st label =
     table @ (if truthy_str (artifact_of st)
              then html_link (artifactUrl API (str_of (artifact_of st))) label else [])"











subsection \<open>Artifact kinds and their labels\<close>

fun split_on :: "char \<Rightarrow> string \<Rightarrow> string list" where
  \<comment> \<open>\<open>s.split(d)\<close> for a one-character separator.\<close>
  "split_on d [] = [[]]"
| "split_on d (c # cs) =
     (if c = d then [] # split_on d cs
      else case split_on d cs of x # xs \<Rightarrow> (c # x) # xs | [] \<Rightarrow> [[c]])"

definition startsWith :: "string \<Rightarrow> string \<Rightarrow> bool" where
  "startsWith s p = (take (length p) s = p)"






subsection \<open>Loading the report\<close>

definition runs_request :: "string \<Rightarrow> string field \<Rightarrow> request" where
  "runs_request API jid = Get (API @ ''/runs/'' @ encodeURIComponent (str_of jid))"


section \<open>plots.js: the FastQC plot gallery\<close>

definition PRETTY :: "(string \<times> string) list" where
  "PRETTY =
     [(''per_base_quality'', ''Per-base Quality''),
      (''per_sequence_quality'', ''Per-sequence Quality''),
      (''per_base_sequence_content'', ''Per-base Sequence Content''),
      (''per_base_gc_content'', ''Per-base GC Content''),
      (''per_sequence_gc_content'', ''Per-sequence GC Content''),
      (''per_base_n_content'', ''Per-base N Content''),
      (''seq_length_distribution'', ''Sequence Length Distribution''),
      (''duplication_levels'', ''Sequence Duplication Levels''),
      (''overrepresented_sequences'', ''Overrepresented Sequences''),
      (''adapter_content'', ''Adapter Content'')]"

definition object_prototype_names :: "string list" where
  \<comment> \<open>\<open>PRETTY\<close> is an object literal, so \<open>PRETTY[key]\<close> also finds what it inherits
      from \<open>Object.prototype\<close>: functions and objects, all truthy and none a string.\<close>
  "object_prototype_names =
     [''constructor'', ''hasOwnProperty'', ''isPrototypeOf'', ''propertyIsEnumerable'',
      ''toLocaleString'', ''toString'', ''valueOf'', ''__proto__'',
      ''__defineGetter__'', ''__defineSetter__'', ''__lookupGetter__'', ''__lookupSetter__'']"

datatype label = Label string | Inherited string

definition plotKey :: "string \<Rightarrow> string" where
  \<comment> \<open>\<open>a.kind.split(":")[1] || "plot"\<close>.\<close>
  "plotKey k =
     (case split_on CHR '':'' k of
        a # b # rest \<Rightarrow> (if b \<noteq> [] then b else ''plot'')
      | _ \<Rightarrow> ''plot'')"

definition plotLabel :: "string \<Rightarrow> label" where
  \<comment> \<open>\<open>PRETTY[key] || key\<close>.\<close>
  "plotLabel k =
     (let key = plotKey k
      in case map_of PRETTY key of
           Some name \<Rightarrow> Label name
         | None \<Rightarrow> if key \<in> set object_prototype_names then Inherited key else Label key)"

definition fastqc_plots :: "string \<Rightarrow> artifact list field \<Rightarrow> string \<Rightarrow> (string \<times> label) list" where
  \<comment> \<open>The \<open>{src, label}\<close> pairs \<open>renderFastqcSection\<close> builds its cards from.\<close>
  "fastqc_plots API_BASE arts tag =
     map (\<lambda>a. (makeArtifactUrl API_BASE (path a), plotLabel (kind a)))
       (filter (\<lambda>a. kind a \<noteq> [] \<and> startsWith (kind a) (''fastqc_plot_'' @ tag @ '':''))
          (case arts of Has l \<Rightarrow> l | _ \<Rightarrow> []))"

section \<open>Missing data, as the specification names it\<close>





section \<open>Sample inputs\<close>

text \<open>A page, client states, snapshots and replies on which the theorems below are run.\<close>

definition blank :: element where
  "blank = \<lparr>content = Html [], className = [], display = [], width = [], disabled = False,
             input_value = [], input_files = []\<rparr>"

definition index_page :: dom where
  "index_page =
     [''status'' \<mapsto> blank, ''bar'' \<mapsto> blank, ''run-btn'' \<mapsto> blank\<lparr>disabled := True\<rparr>,
      ''sample-name'' \<mapsto> blank,
      ''file-input'' \<mapsto> blank\<lparr>input_files := [''R1.fastq.gz'', ''R2.fastq.gz'']\<rparr>]"

definition patient1 :: sample where
  "patient1 = \<lparr>sample_name = Has ''patient1'', sample_files = Has [''R1.fastq.gz'', ''R2.fastq.gz'']\<rparr>"

definition idle_client :: client where
  "idle_client = \<lparr>currentSample = Null, currentJob = Null, page = index_page,
                   alerts = [], requests = [], timers = []\<rparr>"

definition polling_client :: client where
  "polling_client = \<lparr>currentSample = Has patient1, currentJob = Has ''job42'', page = index_page,
                      alerts = [], requests = [], timers = []\<rparr>"

definition snapshot :: "int \<Rightarrow> string \<Rightarrow> job" where
  "snapshot p s = \<lparr>job_id = Has ''job42'', created_at = Undefined, progress = Has p,
                    status = Has s, job_sample = Has patient1, stages = Undefined,
                    artifacts = Undefined\<rparr>"

definition status_ok :: "job \<Rightarrow> status_reply" where
  "status_ok j = \<lparr>st_ok = True, st_error = Undefined, st_job = Has j\<rparr>"

definition status_not_found :: status_reply where
  "status_not_found = \<lparr>st_ok = False, st_error = Has ''not found'', st_job = Undefined\<rparr>"

definition plain :: "job field \<Rightarrow> string" where
  \<comment> \<open>A stand-in for the pretty-printer where a run needs one.\<close>
  "plain j = (case j of Has jb \<Rightarrow> ''{progress: '' @ num_str (progress jb) @ ''}'' | _ \<Rightarrow> ''null'')"

definition mounted_app :: app where
  "mounted_app = App_mount \<lparr>ui = ''fastqc_running'', files = [''R1.fastq.gz'', ''R2.fastq.gz''],
                   app_sample = Has patient1, jobId = Has ''job42'', app_job = Null,
                   activeModule = ''per_base_quality'', isTrimming = False,
                   sample_name_input = [], sent = [], interval = None\<rparr>"

definition named_client :: client where
  "named_client =
     polling_client\<lparr>page := index_page(''sample-name'' \<mapsto> blank\<lparr>input_value := ''patient1''\<rparr>)\<rparr>"







definition sent_field :: "string \<Rightarrow> request \<Rightarrow> form_value option" where
  \<comment> \<open>The first value a multipart request carries under a field name.\<close>
  "sent_field key req = (case req of PostForm url form \<Rightarrow> map_of form key | _ \<Rightarrow> None)"

section \<open>Properties: the status badge\<close>

lemma of_char_lower_char:
  "(of_char (lower_char c) :: nat) =
     (let n = of_char c
      in if (65 \<le> n \<and> n \<le> 90) \<or> (192 \<le> n \<and> n \<le> 222 \<and> n \<noteq> 215) then n + 32 else n)"
  by (simp add: lower_char_def Let_def)

lemma lower_char_eq_letter:
  assumes "97 \<le> (of_char d :: nat)" "(of_char d :: nat) \<le> 122"
  shows "lower_char c = d \<longleftrightarrow> c = d \<or> c = ascii_upper d"
proof -
  have lt: "(of_char c :: nat) < 256" by simp
  have "lower_char c = d \<longleftrightarrow> (of_char (lower_char c) :: nat) = of_char d"
    by simp
  also have "\<dots> \<longleftrightarrow> (of_char c :: nat) = of_char d \<or> (of_char c :: nat) = of_char d - 32"
    using assms lt unfolding of_char_lower_char Let_def by (auto split: if_splits)
  also have "(of_char c :: nat) = of_char d - 32 \<longleftrightarrow> c = ascii_upper d"
  proof -
    have "(of_char (ascii_upper d) :: nat) = of_char d - 32"
      using assms by (simp add: ascii_upper_def)
    then show ?thesis by (metis of_char_eq_iff)
  qed
  finally show ?thesis by simp
qed

lemma toLowerCase_eq_word:
  "lower_letters w \<Longrightarrow> toLowerCase s = w \<longleftrightarrow> case_variant w s"
proof (induction s arbitrary: w)
  case Nil
  then show ?case by (auto simp: toLowerCase_def case_variant_def)
next
  case (Cons c s)
  show ?case
  proof (cases w)
    case Nil
    then show ?thesis by (simp add: toLowerCase_def case_variant_def)
  next
    case (Cons d w')
    with Cons.prems have d: "97 \<le> (of_char d :: nat)" "(of_char d :: nat) \<le> 122"
      and w': "lower_letters w'"
      by (simp_all add: lower_letters_def)
    from Cons.IH[OF w'] lower_char_eq_letter[OF d, of c] Cons show ?thesis
      by (simp add: toLowerCase_def case_variant_def)
  qed
qed

lemma lower_letters_finished: "lower_letters ''finished''"
  by (simp add: lower_letters_def)

lemma lower_letters_failed: "lower_letters ''failed''"
  by (simp add: lower_letters_def)

text \<open>
  Claim C10. \<open>badgeClass\<close> is total and case-insensitive: for every status, a string
  or an absent (\<open>undefined\<close>) or \<open>null\<close> one, it returns one of the three class
  strings; it returns \<open>badge finished\<close> exactly for the case-variants of \<open>finished\<close>,
  \<open>badge failed\<close> exactly for the case-variants of \<open>failed\<close>, and \<open>badge running\<close>
  for everything else, an absent status included.
\<close>

theorem badgeClass_total_case_insensitive:
  "(badgeClass st = ''badge finished'' \<or> badgeClass st = ''badge failed''
      \<or> badgeClass st = ''badge running'')
   \<and> (badgeClass st = ''badge finished'' \<longleftrightarrow> (\<exists>s. st = Has s \<and> case_variant ''finished'' s))
   \<and> (badgeClass st = ''badge failed'' \<longleftrightarrow> (\<exists>s. st = Has s \<and> case_variant ''failed'' s))
   \<and> (badgeClass st = ''badge running'' \<longleftrightarrow>
        (\<nexists>s. st = Has s \<and> (case_variant ''finished'' s \<or> case_variant ''failed'' s)))
   \<and> badgeClass Undefined = ''badge running'' \<and> badgeClass Null = ''badge running''"
proof -
  have nf: "\<not> case_variant ''finished'' []" "\<not> case_variant ''failed'' []"
    by (simp_all add: case_variant_def)
  have fin: "toLowerCase s = ''finished'' \<longleftrightarrow> case_variant ''finished'' s" for s
    by (rule toLowerCase_eq_word[OF lower_letters_finished])
  have fail: "toLowerCase s = ''failed'' \<longleftrightarrow> case_variant ''failed'' s" for s
    by (rule toLowerCase_eq_word[OF lower_letters_failed])
  have e: "toLowerCase [] = []" by (simp add: toLowerCase_def)
  have excl: "\<not> (case_variant ''finished'' s \<and> case_variant ''failed'' s)" for s
  proof
    assume "case_variant ''finished'' s \<and> case_variant ''failed'' s"
    then have "length s = length ''finished''" "length s = length ''failed''"
      unfolding case_variant_def by (blast dest: list_all2_lengthD)+
    then show False by simp
  qed
  show ?thesis
  proof (cases st)
    case (Has s)
    then show ?thesis using nf excl[of s]
      by (cases "s = []") (auto simp: badgeClass_def or_str_def Let_def fin fail e)
  qed (simp_all add: badgeClass_def or_str_def Let_def e)
qed

lemma badgeClass_examples:
  "badgeClass (Has ''FINISHED'') = ''badge finished''
   \<and> badgeClass (Has ''Failed'') = ''badge failed''
   \<and> badgeClass (Has ''queued'') = ''badge running''"
  by code_simp

section \<open>Properties: artifact URLs\<close>














lemma encodeURIComponent_reserved_example:
  "encodeURIComponent ''out dir/a&b=c?.bam'' = ''out%20dir%2Fa%26b%3Dc%3F.bam''"
  by code_simp

section \<open>Properties: the status poller of main.js\<close>

lemma show_int_45: "show_int 45 = ''45''"
  by code_simp

text \<open>
  Claim C8. With \<open>currentJob\<close> null, \<open>pollStatus\<close> returns at once: whatever the
  network would have answered, it ends without throwing in the very state it started
  in, so no request is logged, nothing is rendered and no timer is set.
\<close>

theorem pollStatus_null_job_is_noop:
  "currentJob st = Null \<Longrightarrow> pollStatus API stringify r st = Done st"
  by (simp add: pollStatus_def truthy_str_def)


theorem pollStatus_null_job_is_noop_witness:
  "currentJob idle_client = Null \<and> pollStatus ''http://localhost:5050/api'' plain Rejected idle_client = Done idle_client"
  using pollStatus_null_job_is_noop[of idle_client "''http://localhost:5050/api''" plain Rejected]
  by (simp add: idle_client_def)

text \<open>
  Claim C3. When the status reply carries \<open>ok: false\<close>, the poller ends without
  throwing, the page (the rendered snapshot and the progress bar with it) is what it was,
  and there is no new timer: no further poll is scheduled. It raises no alert either.
\<close>

theorem pollStatus_not_ok_stops:
  "\<not> st_ok data \<Longrightarrow>
     \<not> threw (pollStatus API stringify (Body code data) st)
     \<and> page (state_of (pollStatus API stringify (Body code data) st)) = page st
     \<and> timers (state_of (pollStatus API stringify (Body code data) st)) = timers st
     \<and> alerts (state_of (pollStatus API stringify (Body code data) st)) = alerts st
     \<and> currentJob (state_of (pollStatus API stringify (Body code data) st)) = currentJob st"
  by (simp add: pollStatus_def fetch_def Let_def threw_def state_of_def)


theorem pollStatus_not_ok_stops_witness:
  "\<not> st_ok status_not_found
   \<and> \<not> threw (pollStatus ''http://localhost:5050/api'' plain (Body 404 status_not_found) polling_client)
   \<and> page (state_of (pollStatus ''http://localhost:5050/api'' plain (Body 404 status_not_found) polling_client)) = index_page
   \<and> timers (state_of (pollStatus ''http://localhost:5050/api'' plain (Body 404 status_not_found) polling_client)) = []
   \<and> requests (state_of (pollStatus ''http://localhost:5050/api'' plain (Body 404 status_not_found) polling_client)) = [Get ''http://localhost:5050/api/status/job42'']"
proof -
  have n: "\<not> st_ok status_not_found" by (simp add: status_not_found_def)
  have r: "requests (state_of (pollStatus ''http://localhost:5050/api'' plain (Body 404 status_not_found) polling_client)) = [Get ''http://localhost:5050/api/status/job42'']"
    by (simp add: pollStatus_def fetch_def Let_def state_of_def status_not_found_def polling_client_def truthy_str_def str_of_def)
  show ?thesis
    using n r pollStatus_not_ok_stops[OF n, of "''http://localhost:5050/api''" plain 404 polling_client]
    by (simp add: polling_client_def)
qed

text \<open>
  Claim C4. On the reply \<open>{ok: true, job: {progress: 45, status: "running"}}\<close> (the
  theorem holds for every job with progress 45, whatever its other properties), with a
  job under way and the \<open>status\<close> and \<open>bar\<close> elements on the page, the poller puts
  the new snapshot into the status display, sets the width of the bar to \<open>45%\<close>, and
  adds exactly one timer, of 2000 ms, to those pending; nothing else changes but the log
  of requests.
\<close>

theorem pollStatus_running_45:
  assumes "truthy_str (currentJob st)"
    and "page st ''status'' = Some statusEl" and "page st ''bar'' = Some bar"
    and "progress j = Has 45"
  shows "pollStatus API stringify (Body code \<lparr>st_ok = True, st_error = e, st_job = Has j\<rparr>) st
         = Done (st\<lparr>requests := requests st @ [Get (API @ ''/status/'' @ str_of (currentJob st))],
                    page := (page st)(''status'' \<mapsto> statusEl\<lparr>content := Html (''<pre>'' @ stringify (Has j) @ ''</pre>'')\<rparr>,
                                      ''bar'' \<mapsto> bar\<lparr>width := ''45%''\<rparr>),
                    timers := timers st @ [2000]\<rparr>)"
  using assms
  by (simp add: pollStatus_def fetch_def Let_def renderStatus_def and_then_def num_str_def
        lt_num_def show_int_45)

theorem pollStatus_running_45_witness:
  "pollStatus ''http://localhost:5050/api'' plain (Body 200 (status_ok (snapshot 45 ''running''))) polling_client
     = Done (polling_client\<lparr>requests := [Get ''http://localhost:5050/api/status/job42''],
               page := index_page(''status'' \<mapsto> blank\<lparr>content := Html ''<pre>{progress: 45}</pre>''\<rparr>,
                                  ''bar'' \<mapsto> blank\<lparr>width := ''45%''\<rparr>),
               timers := [2000]\<rparr>)"
proof -
  have 1: "truthy_str (currentJob polling_client)" by (simp add: polling_client_def truthy_str_def)
  have 2: "page polling_client ''status'' = Some blank" by (simp add: polling_client_def index_page_def)
  have 3: "page polling_client ''bar'' = Some blank" by (simp add: polling_client_def index_page_def)
  have 4: "progress (snapshot 45 ''running'') = Has 45" by (simp add: snapshot_def)
  have 5: "plain (Has (snapshot 45 ''running'')) = ''{progress: 45}''"
    by (simp add: plain_def snapshot_def num_str_def show_int_45)
  show ?thesis
    using pollStatus_running_45[OF 1 2 3 4, of "''http://localhost:5050/api''" plain 200 Undefined] 5
    by (simp add: status_ok_def polling_client_def str_of_def)
qed

text \<open>
  Claim C1 says polling stops at progress 100 or at a terminal status. The poller of
  main.js looks at the progress alone: the snapshot \<open>{progress: 45, status: "failed"}\<close>
  is followed by another poll.
\<close>

theorem poll_terminal_below_100_counterexample:
  "status (snapshot 45 ''failed'') = Has ''failed''
   \<and> timers polling_client = []
   \<and> timers (state_of (pollStatus ''http://localhost:5050/api'' plain
        (Body 200 (status_ok (snapshot 45 ''failed''))) polling_client)) = [2000]"
  by (simp add: pollStatus_def fetch_def Let_def renderStatus_def and_then_def num_str_def
        lt_num_def state_of_def status_ok_def snapshot_def polling_client_def index_page_def
        truthy_str_def)

lemma App_poll_interval: "interval (state_of (App_poll API r a)) = interval a"
  by (cases r) (auto simp: App_poll_def app_fetch_def Let_def state_of_def split: field.splits)

lemma pollStatus_timers_at_100:
  assumes "st_job data = Has j" "progress j = Has n" "100 \<le> n"
  shows "timers (state_of (pollStatus API stringify (Body code data) st)) = timers st"
  using assms
  by (auto simp: pollStatus_def fetch_def Let_def renderStatus_def and_then_def lt_num_def
        state_of_def split: option.splits)

lemma pollStatus_timers_below_100:
  assumes "truthy_str (currentJob st)" "page st ''status'' = Some statusEl"
    "page st ''bar'' = Some bar" "st_ok data" "st_job data = Has j" "progress j = Has n" "n < 100"
  shows "timers (state_of (pollStatus API stringify (Body code data) st)) = timers st @ [2000]"
  using assms
  by (simp add: pollStatus_def fetch_def Let_def renderStatus_def and_then_def lt_num_def
        state_of_def)

lemma poll_chain_ends:
  assumes "timers (state_of (pollStatus API stringify r st)) = []"
  shows "poll_chain API stringify (r # rs) st = pollStatus API stringify r st"
  using assms by (cases "pollStatus API stringify r st") (simp_all add: state_of_def)

lemma poll_chain_stops_at_100:
  assumes "timers st = []" "st_job data = Has j" "progress j = Has n" "100 \<le> n"
  shows "poll_chain API stringify (Body code data # rs) st
         = pollStatus API stringify (Body code data) st"
  by (rule poll_chain_ends) (simp add: pollStatus_timers_at_100[OF assms(2-4)] assms(1))

lemma requests_pollStatus:
  "requests (state_of (pollStatus API stringify r st)) = requests st
   \<or> requests (state_of (pollStatus API stringify r st))
       = requests st @ [Get (API @ ''/status/'' @ str_of (currentJob st))]"
proof (cases "truthy_str (currentJob st)")
  case False
  then show ?thesis by (simp add: pollStatus_def state_of_def)
next
  case True
  have "requests (state_of (pollStatus API stringify r st))
       = requests st @ [Get (API @ ''/status/'' @ str_of (currentJob st))]"
  proof (cases r)
    case (Body code data)
    then show ?thesis using True
      by (auto simp: pollStatus_def fetch_def Let_def renderStatus_def and_then_def state_of_def
          split: option.splits field.splits)
  qed (simp_all add: True pollStatus_def fetch_def Let_def state_of_def)
  then show ?thesis by simp
qed

text \<open>
  Claim C1, amended. The poller of main.js schedules no further poll after a snapshot
  whose progress is at least 100: no timer is added, and with none pending the chain of
  polls ends with this one, whatever the server would have answered next. After a
  rendered snapshot whose progress is below 100 it schedules exactly one, 2000 ms later,
  whatever the status. The React variant polls from an interval timer that no reply
  stops or changes.
\<close>

theorem pollStatus_stops_on_progress:
  "(st_job data = Has j \<and> progress j = Has n \<and> 100 \<le> n \<longrightarrow>
      timers (state_of (pollStatus API stringify (Body code data) st)) = timers st)
   \<and> (timers st = [] \<and> st_job data = Has j \<and> progress j = Has n \<and> 100 \<le> n \<longrightarrow>
      poll_chain API stringify (Body code data # rs) st
        = pollStatus API stringify (Body code data) st)
   \<and> (truthy_str (currentJob st) \<and> page st ''status'' = Some statusEl \<and> page st ''bar'' = Some bar
        \<and> st_ok data \<and> st_job data = Has j \<and> progress j = Has n \<and> n < 100 \<longrightarrow>
      timers (state_of (pollStatus API stringify (Body code data) st)) = timers st @ [2000])
   \<and> interval (state_of (App_poll API' r a)) = interval a"
proof (intro conjI impI)
  assume "st_job data = Has j \<and> progress j = Has n \<and> 100 \<le> n"
  then show "timers (state_of (pollStatus API stringify (Body code data) st)) = timers st"
    by (simp add: pollStatus_timers_at_100)
next
  assume "timers st = [] \<and> st_job data = Has j \<and> progress j = Has n \<and> 100 \<le> n"
  then show "poll_chain API stringify (Body code data # rs) st
        = pollStatus API stringify (Body code data) st"
    using poll_chain_stops_at_100[of st data j n API stringify code rs] by blast
next
  assume "truthy_str (currentJob st) \<and> page st ''status'' = Some statusEl \<and> page st ''bar'' = Some bar
        \<and> st_ok data \<and> st_job data = Has j \<and> progress j = Has n \<and> n < 100"
  then show "timers (state_of (pollStatus API stringify (Body code data) st)) = timers st @ [2000]"
    by (simp add: pollStatus_timers_below_100)
next
  show "interval (state_of (App_poll API' r a)) = interval a" by (rule App_poll_interval)
qed

theorem pollStatus_stops_on_progress_witness:
  "timers (state_of (pollStatus ''http://localhost:5050/api'' plain
      (Body 200 (status_ok (snapshot 100 ''running''))) polling_client)) = []
   \<and> requests (state_of (poll_chain ''http://localhost:5050/api'' plain
      [Body 200 (status_ok (snapshot 100 ''running'')), Body 200 (status_ok (snapshot 100 ''running''))]
      polling_client)) = [Get ''http://localhost:5050/api/status/job42'']
   \<and> timers (state_of (pollStatus ''http://localhost:5050/api'' plain
      (Body 200 (status_ok (snapshot 45 ''finished''))) polling_client)) = [2000]
   \<and> interval (state_of (App_poll ''http://127.0.0.1:5001''
      (Body 200 (status_ok (snapshot 100 ''finished''))) mounted_app)) = Some 1000"
proof -
  let ?api = "''http://localhost:5050/api''"
  let ?done = "status_ok (snapshot 100 ''running'')"
  note c1 = conjunct1 and c2 = conjunct2
  have pre: "timers polling_client = []" "st_job ?done = Has (snapshot 100 ''running'')"
    "progress (snapshot 100 ''running'') = Has 100"
    "truthy_str (currentJob polling_client)" "page polling_client ''status'' = Some blank"
    "page polling_client ''bar'' = Some blank" "st_ok (status_ok (snapshot 45 ''finished''))"
    "st_job (status_ok (snapshot 45 ''finished'')) = Has (snapshot 45 ''finished'')"
    "progress (snapshot 45 ''finished'') = Has 45"
    by (simp_all add: polling_client_def index_page_def status_ok_def snapshot_def truthy_str_def)
  have a: "timers (state_of (pollStatus ?api plain (Body 200 ?done) polling_client)) = []"
    using pollStatus_stops_on_progress[where data = ?done and j = "snapshot 100 ''running''"
        and n = 100 and API = ?api and stringify = plain and code = 200 and st = polling_client,
        THEN c1, THEN mp] pre
    by simp
  have b: "poll_chain ?api plain [Body 200 ?done, Body 200 ?done] polling_client
           = pollStatus ?api plain (Body 200 ?done) polling_client"
    using pollStatus_stops_on_progress[where data = ?done and j = "snapshot 100 ''running''"
        and n = 100 and API = ?api and stringify = plain and code = 200 and st = polling_client
        and rs = "[Body 200 ?done]", THEN c2, THEN c1, THEN mp] pre
    by simp
  have b': "requests (state_of (pollStatus ?api plain (Body 200 ?done) polling_client))
            = [Get ''http://localhost:5050/api/status/job42'']"
    by (simp add: pollStatus_def fetch_def Let_def renderStatus_def and_then_def lt_num_def
          state_of_def status_ok_def snapshot_def polling_client_def index_page_def
          truthy_str_def str_of_def)
  have c: "timers (state_of (pollStatus ?api plain
      (Body 200 (status_ok (snapshot 45 ''finished''))) polling_client)) = [2000]"
    using pollStatus_stops_on_progress[where data = "status_ok (snapshot 45 ''finished'')"
        and j = "snapshot 45 ''finished''" and n = 45 and API = ?api and stringify = plain
        and code = 200 and st = polling_client and statusEl = blank and bar = blank,
        THEN c2, THEN c2, THEN c1, THEN mp] pre
    by simp
  have d: "interval (state_of (App_poll ''http://127.0.0.1:5001''
      (Body 200 (status_ok (snapshot 100 ''finished''))) mounted_app)) = Some 1000"
    using pollStatus_stops_on_progress[where API' = "''http://127.0.0.1:5001''"
        and r = "Body 200 (status_ok (snapshot 100 ''finished''))" and a = mounted_app,
        THEN c2, THEN c2, THEN c2]
    by (simp add: mounted_app_def App_mount_def useInterval_def)
  from a b b' c d show ?thesis by simp
qed

section \<open>Properties: the upload handlers\<close>

lemma requests_upload_submit:
  assumes "page st ''sample-name'' = Some nameInput" and "page st ''file-input'' = Some fi"
    and "input_files fi \<noteq> []"
  shows "requests (state_of (upload_submit API r st))
         = requests st @ [PostForm (API @ ''/upload'')
             ((''sample_name'', FText (if input_value nameInput = [] then ''sample'' else input_value nameInput))
              # map (\<lambda>f. (''files'', FFile f)) (input_files fi))]"
  using assms
  by (cases r)
     (auto simp: upload_submit_def fetch_def Let_def state_of_def alert_def split: option.splits)

lemma sent_onUpload:
  "sent (state_of (onUpload API r a))
   = sent a @ [PostForm (API @ ''/api/upload'')
       (map (\<lambda>f. (''files'', FFile f)) (files a)
        @ [(''sample_name'', FText (if sample_name_input a = [] then ''sample'' else sample_name_input a))])]"
  by (cases r) (auto simp: onUpload_def app_fetch_def Let_def state_of_def)

lemma map_of_files_sample_name:
  "map_of (map (\<lambda>f. (''files'', FFile f)) fs @ [(''sample_name'', v)]) ''sample_name'' = Some v"
  by (induction fs) simp_all

text \<open>
  Claim C9. In both upload handlers the request carries, under \<open>sample_name\<close>, the
  string \<open>sample\<close> when the input is empty and the entered text otherwise. The handler
  of main.js sends a request only when files are chosen; the React handler always sends
  one. This holds whatever the network answers.
\<close>

theorem upload_sample_name_default:
  "(page st ''sample-name'' = Some nameInput \<and> page st ''file-input'' = Some fi \<and> input_files fi \<noteq> [] \<longrightarrow>
      (\<exists>req. requests (state_of (upload_submit API r st)) = requests st @ [req]
         \<and> sent_field ''sample_name'' req
             = Some (FText (if input_value nameInput = [] then ''sample'' else input_value nameInput))))
   \<and> (\<exists>req. sent (state_of (onUpload API' r' a)) = sent a @ [req]
         \<and> sent_field ''sample_name'' req
             = Some (FText (if sample_name_input a = [] then ''sample'' else sample_name_input a)))"
proof (intro conjI impI)
  assume "page st ''sample-name'' = Some nameInput \<and> page st ''file-input'' = Some fi \<and> input_files fi \<noteq> []"
  then show "\<exists>req. requests (state_of (upload_submit API r st)) = requests st @ [req]
         \<and> sent_field ''sample_name'' req
             = Some (FText (if input_value nameInput = [] then ''sample'' else input_value nameInput))"
    by (simp add: requests_upload_submit sent_field_def)
next
  show "\<exists>req. sent (state_of (onUpload API' r' a)) = sent a @ [req]
         \<and> sent_field ''sample_name'' req
             = Some (FText (if sample_name_input a = [] then ''sample'' else sample_name_input a))"
    by (simp add: sent_onUpload sent_field_def map_of_files_sample_name del: map_of_append)
qed

theorem upload_sample_name_default_witness:
  "map (sent_field ''sample_name'') (requests (state_of (upload_submit ''http://localhost:5050/api'' Rejected polling_client)))
     = [Some (FText ''sample'')]
   \<and> map (sent_field ''sample_name'') (requests (state_of (upload_submit ''http://localhost:5050/api'' Rejected named_client)))
     = [Some (FText ''patient1'')]
   \<and> map (sent_field ''sample_name'') (sent (state_of (onUpload ''http://127.0.0.1:5001'' Rejected mounted_app)))
     = [Some (FText ''sample'')]
   \<and> map (sent_field ''sample_name'') (sent (state_of (onUpload ''http://127.0.0.1:5001'' Rejected
         (mounted_app\<lparr>sample_name_input := ''patient1''\<rparr>))))
     = [Some (FText ''patient1'')]"
proof -
  let ?fi = "blank\<lparr>input_files := [''R1.fastq.gz'', ''R2.fastq.gz'']\<rparr>"
  have a: "map (sent_field ''sample_name'') (requests (state_of (upload_submit ''http://localhost:5050/api'' Rejected polling_client)))
     = [Some (FText ''sample'')]"
    using upload_sample_name_default[of polling_client blank ?fi "''http://localhost:5050/api''" Rejected "''http://127.0.0.1:5001''" Rejected mounted_app]
    by (auto simp: polling_client_def index_page_def blank_def)
  have b: "map (sent_field ''sample_name'') (requests (state_of (upload_submit ''http://localhost:5050/api'' Rejected named_client)))
     = [Some (FText ''patient1'')]"
    using upload_sample_name_default[of named_client "blank\<lparr>input_value := ''patient1''\<rparr>" ?fi "''http://localhost:5050/api''" Rejected "''http://127.0.0.1:5001''" Rejected mounted_app]
    by (auto simp: named_client_def polling_client_def index_page_def blank_def)
  have c: "map (sent_field ''sample_name'') (sent (state_of (onUpload ''http://127.0.0.1:5001'' Rejected mounted_app)))
     = [Some (FText ''sample'')]"
    using upload_sample_name_default[of polling_client blank ?fi "''http://localhost:5050/api''" Rejected "''http://127.0.0.1:5001''" Rejected mounted_app]
    by (auto simp: mounted_app_def App_mount_def useInterval_def)
  have d: "map (sent_field ''sample_name'') (sent (state_of (onUpload ''http://127.0.0.1:5001'' Rejected
         (mounted_app\<lparr>sample_name_input := ''patient1''\<rparr>))))
     = [Some (FText ''patient1'')]"
    using upload_sample_name_default[of polling_client blank ?fi "''http://localhost:5050/api''" Rejected "''http://127.0.0.1:5001''" Rejected "mounted_app\<lparr>sample_name_input := ''patient1''\<rparr>"]
    by (auto simp: mounted_app_def App_mount_def useInterval_def)
  from a b c d show ?thesis by simp
qed

section \<open>Properties: the labels of plot artifacts\<close>













section \<open>Properties: failures\<close>











text \<open>
  The handlers of main.js have no \<open>try\<close> around their requests. When the upload
  request fails in transport, the handler is left by the rejected promise: it throws,
  and no alert is raised.
\<close>

lemma upload_transport_failure_uncaught:
  assumes "page st ''sample-name'' = Some nameInput" and "page st ''file-input'' = Some fi"
    and "input_files fi \<noteq> []"
  shows "threw (upload_submit API Rejected st)
         \<and> alerts (state_of (upload_submit API Rejected st)) = alerts st"
  using assms by (simp add: upload_submit_def fetch_def Let_def threw_def state_of_def)

lemma upload_transport_failure_uncaught_witness:
  "threw (upload_submit ''http://localhost:5050/api'' Rejected polling_client)
   \<and> alerts (state_of (upload_submit ''http://localhost:5050/api'' Rejected polling_client)) = []"
  using upload_transport_failure_uncaught[of polling_client blank
      "blank\<lparr>input_files := [''R1.fastq.gz'', ''R2.fastq.gz'']\<rparr>" "''http://localhost:5050/api''"]
  by (simp add: polling_client_def index_page_def blank_def)

section \<open>Properties: missing stages and artifacts\<close>







lemma stage_html_absent: "stage_html API ph None label = ph"
  by (simp add: stage_html_def artifact_of_def truthy_str_def)











end
